theory Spec2Isabelle
  imports Main "HOL-Library.Word" "HOL-Library.Signed_Division"
begin

section \<open>Data model of cb\_heartbeat.go\<close>

text \<open>
  Go's \<open>int\<close> is modelled at its 64-bit width: arithmetic wraps around, and the signed
  reading of a value is \<open>sint\<close>. Go's \<open>/\<close> truncates towards zero, which is \<open>sdiv\<close> on
  the signed readings.
\<close>

type_synonym go_int = "64 word"

definition go_div :: "go_int \<Rightarrow> go_int \<Rightarrow> go_int" where
  "go_div a b = word_of_int (sint a sdiv sint b)"

definition docTypeHeartbeat :: string where
  "docTypeHeartbeat = ''heartbeat''"

definition docTypeHeartbeatTimeout :: string where
  "docTypeHeartbeatTimeout = ''heartbeat_timeout''"

record heartbeatMeta =
  hm_Type :: string
  hm_NodeUUID :: string

record heartbeatTimeout =
  ht_Type :: string
  ht_NodeUUID :: string

text \<open>
  A Go \<open>error\<close> coming back from the bucket. \<open>couchbase.IsKeyNoEntError\<close> recognises
  the memcached "key not found" status; every other error is a \<open>StoreError\<close>.
\<close>

datatype error = KeyNoEntError | StoreError nat

fun IsKeyNoEntError :: "error \<Rightarrow> bool" where
  "IsKeyNoEntError KeyNoEntError = True"
| "IsKeyNoEntError (StoreError _) = False"

datatype panic = Panic string

text \<open>
  The two closer channels carry no values: all that matters is whether \<open>close\<close> has
  been called. Go's \<open>close\<close> on a channel that is already closed panics.
\<close>

datatype chan = ChanOpen | ChanClosed

fun close_chan :: "chan \<Rightarrow> panic + chan" where
  "close_chan ChanOpen = Inr ChanClosed"
| "close_chan ChanClosed = Inl (Panic ''close of closed channel'')"

datatype Bucket = Bucket string

record couchbaseHeartBeater =
  bucket :: "Bucket option"
  couchbaseUrlStr :: string
  bucketName :: string
  nodeUuid :: string
  keyPrefix :: string
  heartbeatSendCloser :: chan
  heartbeatCheckCloser :: chan

subsection \<open>The store and the observable calls\<close>

text \<open>
  The value handed to \<open>Bucket.Set\<close> (an \<open>interface{}\<close> in Go) is one of the two
  document structs. The values of the \<open>map[string]interface{}\<close> of view parameters are
  booleans, strings or numbers; the map is kept as an association list.
\<close>

datatype docValue = MetaDoc heartbeatMeta | TimeoutDoc heartbeatTimeout

datatype param = PBool bool | PString string | PInt int

record viewRow =
  Id :: string
  Value :: string

text \<open>
  The go-couchbase library is outside the repository. Its operations are parameters of the
  model: each takes the state \<open>'s\<close> of the outside world (the cluster, its clock, the
  other nodes) and returns its result with the new state, so that every theorem below
  holds for every behaviour of the store.
  \<^item> \<open>cb_GetBucket url pool name\<close> is \<open>couchbase.GetBucket\<close>;
  \<^item> \<open>cb_Set key exp value\<close> is \<open>Bucket.Set\<close>, \<open>exp\<close> the expiry in seconds;
  \<^item> \<open>cb_Get key\<close> is \<open>Bucket.Get\<close>, returning the decoded document or the error;
  \<^item> \<open>cb_Delete key\<close> is \<open>Bucket.Delete\<close>;
  \<^item> \<open>cb_ViewCustom ddoc view params\<close> is \<open>Bucket.ViewCustom\<close>, returning the rows;
  \<^item> \<open>cb_UpdateView ddoc versionKey version\<close> is \<open>couchbaseutil.UpdateView\<close> (the text
    of the design document, a constant, is left out).
\<close>

record 's couchbase =
  cb_GetBucket :: "string \<Rightarrow> string \<Rightarrow> string \<Rightarrow> 's \<Rightarrow> (error + Bucket) \<times> 's"
  cb_Set :: "string \<Rightarrow> go_int \<Rightarrow> docValue \<Rightarrow> 's \<Rightarrow> error option \<times> 's"
  cb_Get :: "string \<Rightarrow> 's \<Rightarrow> (error + heartbeatTimeout) \<times> 's"
  cb_Delete :: "string \<Rightarrow> 's \<Rightarrow> error option \<times> 's"
  cb_ViewCustom :: "string \<Rightarrow> string \<Rightarrow> (string \<times> param) list \<Rightarrow> 's \<Rightarrow> (error + viewRow list) \<times> 's"
  cb_UpdateView :: "string \<Rightarrow> string \<Rightarrow> go_int \<Rightarrow> 's \<Rightarrow> error option \<times> 's"

text \<open>The \<open>HeartbeatsStoppedHandler\<close> of the caller: any effect on the outside world.\<close>

type_synonym 's handler = "string \<Rightarrow> 's \<Rightarrow> 's"

text \<open>The four \<open>log.Printf\<close> calls of the file, by their format string.\<close>

datatype logmsg =
    ErrorSendingHeartbeat error
  | ErrorCheckingStaleHeartbeats error
  | SkippingInvalidHeartbeatDoc heartbeatMeta
  | FailedToDeleteHeartbeatDoc string error

datatype event =
    EvGetBucket string string string
  | EvSet string go_int docValue
  | EvGet string
  | EvDelete string
  | EvViewCustom string string "(string \<times> param) list"
  | EvUpdateView string string go_int
  | EvStaleHeartBeatDetected string
  | EvLog logmsg
  | EvTickerStop

text \<open>
  The world threaded through the code: the outside state and the trace of every call the
  heartbeater has made, in order.
\<close>

record 's world =
  ext :: 's
  trace :: "event list"

definition bucketSet :: "'s couchbase \<Rightarrow> string \<Rightarrow> go_int \<Rightarrow> docValue \<Rightarrow> 's world \<Rightarrow> error option \<times> 's world" where
  "bucketSet cb k exp v w =
     (case cb_Set cb k exp v (ext w) of
        (r, s) \<Rightarrow> (r, \<lparr>ext = s, trace = trace w @ [EvSet k exp v]\<rparr>))"

definition bucketGet :: "'s couchbase \<Rightarrow> string \<Rightarrow> 's world \<Rightarrow> (error + heartbeatTimeout) \<times> 's world" where
  "bucketGet cb k w =
     (case cb_Get cb k (ext w) of
        (r, s) \<Rightarrow> (r, \<lparr>ext = s, trace = trace w @ [EvGet k]\<rparr>))"

definition bucketDelete :: "'s couchbase \<Rightarrow> string \<Rightarrow> 's world \<Rightarrow> error option \<times> 's world" where
  "bucketDelete cb k w =
     (case cb_Delete cb k (ext w) of
        (r, s) \<Rightarrow> (r, \<lparr>ext = s, trace = trace w @ [EvDelete k]\<rparr>))"

definition bucketViewCustom :: "'s couchbase \<Rightarrow> string \<Rightarrow> string \<Rightarrow> (string \<times> param) list \<Rightarrow> 's world \<Rightarrow> (error + viewRow list) \<times> 's world" where
  "bucketViewCustom cb ddoc view params w =
     (case cb_ViewCustom cb ddoc view params (ext w) of
        (r, s) \<Rightarrow> (r, \<lparr>ext = s, trace = trace w @ [EvViewCustom ddoc view params]\<rparr>))"

definition updateView :: "'s couchbase \<Rightarrow> string \<Rightarrow> string \<Rightarrow> go_int \<Rightarrow> 's world \<Rightarrow> error option \<times> 's world" where
  "updateView cb ddoc versionKey version w =
     (case cb_UpdateView cb ddoc versionKey version (ext w) of
        (r, s) \<Rightarrow> (r, \<lparr>ext = s, trace = trace w @ [EvUpdateView ddoc versionKey version]\<rparr>))"

definition couchbaseGetBucket :: "'s couchbase \<Rightarrow> string \<Rightarrow> string \<Rightarrow> string \<Rightarrow> 's world \<Rightarrow> (error + Bucket) \<times> 's world" where
  "couchbaseGetBucket cb url pool name w =
     (case cb_GetBucket cb url pool name (ext w) of
        (r, s) \<Rightarrow> (r, \<lparr>ext = s, trace = trace w @ [EvGetBucket url pool name]\<rparr>))"

definition logPrintf :: "logmsg \<Rightarrow> 's world \<Rightarrow> 's world" where
  "logPrintf m w = \<lparr>ext = ext w, trace = trace w @ [EvLog m]\<rparr>"

definition StaleHeartBeatDetected :: "'s handler \<Rightarrow> string \<Rightarrow> 's world \<Rightarrow> 's world" where
  "StaleHeartBeatDetected handler n w =
     \<lparr>ext = handler n (ext w), trace = trace w @ [EvStaleHeartBeatDetected n]\<rparr>"

section \<open>The operations\<close>

subsection \<open>Keys\<close>

definition heartbeatTimeoutDocId :: "couchbaseHeartBeater \<Rightarrow> string \<Rightarrow> string" where
  "heartbeatTimeoutDocId h n = keyPrefix h @ ''heartbeat_timeout:'' @ n"

definition heartbeatDocId :: "couchbaseHeartBeater \<Rightarrow> string \<Rightarrow> string" where
  "heartbeatDocId h n = keyPrefix h @ ''heartbeat:'' @ n"

subsection \<open>Construction\<close>

definition getBucket :: "'s couchbase \<Rightarrow> couchbaseHeartBeater \<Rightarrow> 's world \<Rightarrow> (error + couchbaseHeartBeater) \<times> 's world" where
  "getBucket cb h w =
     (case bucket h of
        Some b \<Rightarrow> (Inr h, w)
      | None \<Rightarrow>
          (case couchbaseGetBucket cb (couchbaseUrlStr h) ''default'' (bucketName h) w of
             (Inl e, w1) \<Rightarrow> (Inl e, w1)
           | (Inr b, w1) \<Rightarrow> (Inr (h\<lparr>bucket := Some b\<rparr>), w1)))"

definition NewCouchbaseHeartbeater :: "'s couchbase \<Rightarrow> string \<Rightarrow> string \<Rightarrow> string \<Rightarrow> string \<Rightarrow> 's world \<Rightarrow> (error + couchbaseHeartBeater) \<times> 's world" where
  "NewCouchbaseHeartbeater cb couchbaseUrl bucketName' keyPrefix' nodeUuid' w =
     (let heartbeater =
        \<lparr>bucket = None, couchbaseUrlStr = couchbaseUrl, bucketName = bucketName',
         nodeUuid = nodeUuid', keyPrefix = keyPrefix',
         heartbeatSendCloser = ChanOpen, heartbeatCheckCloser = ChanOpen\<rparr>
      in getBucket cb heartbeater w)"

subsection \<open>Sending\<close>

definition upsertHeartbeatDoc :: "'s couchbase \<Rightarrow> couchbaseHeartBeater \<Rightarrow> 's world \<Rightarrow> error option \<times> 's world" where
  "upsertHeartbeatDoc cb h w =
     (let heartbeatDoc = \<lparr>hm_Type = docTypeHeartbeat, hm_NodeUUID = nodeUuid h\<rparr>;
          docId = heartbeatDocId h (nodeUuid h)
      in bucketSet cb docId 0 (MetaDoc heartbeatDoc) w)"

definition expireTimeSeconds :: "go_int \<Rightarrow> go_int" where
  "expireTimeSeconds intervalMs = go_div intervalMs 1000 * 2"

definition upsertHeartbeatTimeoutDoc :: "'s couchbase \<Rightarrow> couchbaseHeartBeater \<Rightarrow> go_int \<Rightarrow> 's world \<Rightarrow> error option \<times> 's world" where
  "upsertHeartbeatTimeoutDoc cb h intervalMs w =
     (let heartbeatTimeoutDoc = \<lparr>ht_Type = docTypeHeartbeatTimeout, ht_NodeUUID = nodeUuid h\<rparr>;
          docId = heartbeatTimeoutDocId h (nodeUuid h)
      in bucketSet cb docId (expireTimeSeconds intervalMs) (TimeoutDoc heartbeatTimeoutDoc) w)"

definition sendHeartbeat :: "'s couchbase \<Rightarrow> couchbaseHeartBeater \<Rightarrow> go_int \<Rightarrow> 's world \<Rightarrow> error option \<times> 's world" where
  "sendHeartbeat cb h intervalMs w =
     (case upsertHeartbeatDoc cb h w of
        (Some err, w1) \<Rightarrow> (Some err, w1)
      | (None, w1) \<Rightarrow>
          (case upsertHeartbeatTimeoutDoc cb h intervalMs w1 of
             (Some err, w2) \<Rightarrow> (Some err, w2)
           | (None, w2) \<Rightarrow> (None, w2)))"

subsection \<open>Checking\<close>

definition viewQueryHeartbeatDocs :: "'s couchbase \<Rightarrow> couchbaseHeartBeater \<Rightarrow> 's world \<Rightarrow> (error + heartbeatMeta list) \<times> 's world" where
  "viewQueryHeartbeatDocs cb h w =
     (case bucketViewCustom cb ''cbgt'' ''heartbeats'' [(''stale'', PBool False)] w of
        (Inl err, w1) \<Rightarrow> (Inl err, w1)
      | (Inr rows, w1) \<Rightarrow>
          (Inr (map (\<lambda>row. \<lparr>hm_Type = docTypeHeartbeat, hm_NodeUUID = Value row\<rparr>) rows), w1))"

text \<open>The \<open>for ... range heartbeatDocs\<close> loop of \<open>checkStaleHeartbeats\<close>.\<close>

fun checkLoop :: "'s couchbase \<Rightarrow> couchbaseHeartBeater \<Rightarrow> 's handler \<Rightarrow> heartbeatMeta list \<Rightarrow> 's world \<Rightarrow> error option \<times> 's world" where
  "checkLoop cb h handler [] w = (None, w)"
| "checkLoop cb h handler (heartbeatDoc # rest) w =
     (if hm_NodeUUID heartbeatDoc = nodeUuid h then checkLoop cb h handler rest w
      else if hm_NodeUUID heartbeatDoc = [] then
        checkLoop cb h handler rest (logPrintf (SkippingInvalidHeartbeatDoc heartbeatDoc) w)
      else
        (case bucketGet cb (heartbeatTimeoutDocId h (hm_NodeUUID heartbeatDoc)) w of
           (Inr heartbeatTimeoutDoc, w1) \<Rightarrow> checkLoop cb h handler rest w1
         | (Inl err, w1) \<Rightarrow>
             if \<not> IsKeyNoEntError err then (Some err, w1)
             else
               (let w2 = StaleHeartBeatDetected handler (hm_NodeUUID heartbeatDoc) w1;
                    docId = heartbeatDocId h (hm_NodeUUID heartbeatDoc)
                in case bucketDelete cb docId w2 of
                     (Some err', w3) \<Rightarrow>
                       checkLoop cb h handler rest (logPrintf (FailedToDeleteHeartbeatDoc docId err') w3)
                   | (None, w3) \<Rightarrow> checkLoop cb h handler rest w3)))"

definition checkStaleHeartbeats :: "'s couchbase \<Rightarrow> couchbaseHeartBeater \<Rightarrow> go_int \<Rightarrow> 's handler \<Rightarrow> 's world \<Rightarrow> error option \<times> 's world" where
  "checkStaleHeartbeats cb h staleThresholdMs handler w =
     (case viewQueryHeartbeatDocs cb h w of
        (Inl err, w1) \<Rightarrow> (Some err, w1)
      | (Inr heartbeatDocs, w1) \<Rightarrow> checkLoop cb h handler heartbeatDocs w1)"

definition addHeartbeatCheckView :: "'s couchbase \<Rightarrow> couchbaseHeartBeater \<Rightarrow> 's world \<Rightarrow> error option \<times> 's world" where
  "addHeartbeatCheckView cb h w =
     (let ddocVersionKey = keyPrefix h @ ''ddocVersion'';
          ddocVersion = 1
      in updateView cb ''cbgt'' ddocVersionKey ddocVersion w)"

subsection \<open>The periodic tasks\<close>

text \<open>
  \<open>time.Duration\<close> is a 64-bit count of nanoseconds, \<open>time.Millisecond\<close> is \<open>1000000\<close>,
  and the product wraps around. \<open>time.NewTicker d\<close> panics unless \<open>d\<close> is positive
  (the Go standard library: "The duration d must be greater than zero; if not, NewTicker
  will panic").
\<close>

definition Millisecond :: go_int where
  "Millisecond = 1000000"

datatype Ticker = Ticker go_int

definition NewTicker :: "go_int \<Rightarrow> panic + Ticker" where
  "NewTicker d =
     (if sint d \<le> 0 then Inl (Panic ''non-positive interval for NewTicker'')
      else Inr (Ticker d))"

text \<open>
  Each goroutine is a \<open>for { select { ... } }\<close> over its closer channel and its ticker.
  Which case fires when is decided by the runtime: the goroutine is run on the list of
  the cases that fire. It returns \<open>True\<close> when the goroutine has returned, \<open>False\<close>
  when it is blocked in \<open>select\<close> at the end of the list.
\<close>

datatype selectCase = CloserReceived | TickerFired

fun senderLoop :: "'s couchbase \<Rightarrow> couchbaseHeartBeater \<Rightarrow> go_int \<Rightarrow> selectCase list \<Rightarrow> 's world \<Rightarrow> bool \<times> 's world" where
  "senderLoop cb h intervalMs [] w = (False, w)"
| "senderLoop cb h intervalMs (CloserReceived # cases) w =
     (True, \<lparr>ext = ext w, trace = trace w @ [EvTickerStop]\<rparr>)"
| "senderLoop cb h intervalMs (TickerFired # cases) w =
     (case sendHeartbeat cb h intervalMs w of
        (Some err, w1) \<Rightarrow> senderLoop cb h intervalMs cases (logPrintf (ErrorSendingHeartbeat err) w1)
      | (None, w1) \<Rightarrow> senderLoop cb h intervalMs cases w1)"

fun checkerLoop :: "'s couchbase \<Rightarrow> couchbaseHeartBeater \<Rightarrow> go_int \<Rightarrow> 's handler \<Rightarrow> selectCase list \<Rightarrow> 's world \<Rightarrow> bool \<times> 's world" where
  "checkerLoop cb h staleThresholdMs handler [] w = (False, w)"
| "checkerLoop cb h staleThresholdMs handler (CloserReceived # cases) w =
     (True, \<lparr>ext = ext w, trace = trace w @ [EvTickerStop]\<rparr>)"
| "checkerLoop cb h staleThresholdMs handler (TickerFired # cases) w =
     (case checkStaleHeartbeats cb h staleThresholdMs handler w of
        (Some err, w1) \<Rightarrow>
          checkerLoop cb h staleThresholdMs handler cases (logPrintf (ErrorCheckingStaleHeartbeats err) w1)
      | (None, w1) \<Rightarrow> checkerLoop cb h staleThresholdMs handler cases w1)"

text \<open>
  \<open>StartSendingHeartbeats\<close> makes the ticker, starts the goroutine \<open>senderLoop cb h
  intervalMs\<close> and returns \<open>nil\<close>: its result is the panic of \<open>NewTicker\<close>, or the
  returned error, the ticker of the goroutine and the world at the return.
\<close>

definition StartSendingHeartbeats :: "'s couchbase \<Rightarrow> couchbaseHeartBeater \<Rightarrow> go_int \<Rightarrow> 's world \<Rightarrow> panic + (error option \<times> Ticker option \<times> 's world)" where
  "StartSendingHeartbeats cb h intervalMs w =
     (case NewTicker (intervalMs * Millisecond) of
        Inl p \<Rightarrow> Inl p
      | Inr ticker \<Rightarrow> Inr (None, Some ticker, w))"

definition StopSendingHeartbeats :: "couchbaseHeartBeater \<Rightarrow> panic + couchbaseHeartBeater" where
  "StopSendingHeartbeats h =
     (case close_chan (heartbeatSendCloser h) of
        Inl p \<Rightarrow> Inl p
      | Inr c \<Rightarrow> Inr (h\<lparr>heartbeatSendCloser := c\<rparr>))"

definition StartCheckingHeartbeats :: "'s couchbase \<Rightarrow> couchbaseHeartBeater \<Rightarrow> go_int \<Rightarrow> 's handler \<Rightarrow> 's world \<Rightarrow> panic + (error option \<times> Ticker option \<times> 's world)" where
  "StartCheckingHeartbeats cb h staleThresholdMs handler w =
     (case addHeartbeatCheckView cb h w of
        (Some err, w1) \<Rightarrow> Inr (Some err, None, w1)
      | (None, w1) \<Rightarrow>
          (case NewTicker (staleThresholdMs * Millisecond) of
             Inl p \<Rightarrow> Inl p
           | Inr ticker \<Rightarrow> Inr (None, Some ticker, w1)))"

definition StopCheckingHeartbeats :: "couchbaseHeartBeater \<Rightarrow> panic + couchbaseHeartBeater" where
  "StopCheckingHeartbeats h =
     (case close_chan (heartbeatCheckCloser h) of
        Inl p \<Rightarrow> Inl p
      | Inr c \<Rightarrow> Inr (h\<lparr>heartbeatCheckCloser := c\<rparr>))"

section \<open>The meaning of the view parameter\<close>

text \<open>
  The \<open>stale\<close> parameter of a Couchbase view query (the server's REST API, outside the
  repository) takes three values: \<open>false\<close> makes the server update the index before it
  answers, so that the rows are those of a fresh index; \<open>ok\<close> answers from the index
  as it is; \<open>update_after\<close>, the default when the parameter is absent, answers from
  the index as it is and updates it afterwards. A query allows rows of a stale index unless
  its \<open>stale\<close> parameter is \<open>false\<close>.
\<close>

definition allowsStaleIndex :: "(string \<times> param) list \<Rightarrow> bool" where
  "allowsStaleIndex params =
     (map_of params ''stale'' \<noteq> Some (PBool False) \<and>
      map_of params ''stale'' \<noteq> Some (PString ''false''))"

section \<open>An in-memory store\<close>

text \<open>
  A store to run the model on: the documents by key, newest first. A key listed in
  \<open>broken\<close> makes \<open>Set\<close>, \<open>Get\<close> and \<open>Delete\<close> fail with \<open>StoreError 1\<close>; a
  \<open>Get\<close> of a key holding no timeout document is the key-not-found error. The view
  emits the \<open>node_uuid\<close> of every heartbeat document, as the map function of the design
  document does. It keeps no clock, so a document never expires by itself.
\<close>

type_synonym memStore = "(string \<times> docValue) list"

definition memCouchbase :: "string list \<Rightarrow> memStore couchbase" where
  "memCouchbase broken =
     \<lparr>cb_GetBucket = (\<lambda>url pool name s. (Inr (Bucket name), s)),
      cb_Set = (\<lambda>k exp v s.
         if k \<in> set broken then (Some (StoreError 1), s)
         else (None, (k, v) # filter (\<lambda>kv. fst kv \<noteq> k) s)),
      cb_Get = (\<lambda>k s.
         if k \<in> set broken then (Inl (StoreError 1), s)
         else (case map_of s k of
                 Some (TimeoutDoc d) \<Rightarrow> (Inr d, s)
               | Some (MetaDoc m) \<Rightarrow> (Inl KeyNoEntError, s)
               | None \<Rightarrow> (Inl KeyNoEntError, s))),
      cb_Delete = (\<lambda>k s.
         if k \<in> set broken then (Some (StoreError 1), s)
         else (None, filter (\<lambda>kv. fst kv \<noteq> k) s)),
      cb_ViewCustom = (\<lambda>ddoc view params s.
         (Inr (concat (map (\<lambda>kv. case snd kv of
                                   MetaDoc m \<Rightarrow> [\<lparr>Id = fst kv, Value = hm_NodeUUID m\<rparr>]
                                 | TimeoutDoc d \<Rightarrow> []) s)), s)),
      cb_UpdateView = (\<lambda>ddoc versionKey version s. (None, s))\<rparr>"

definition noHandler :: "memStore handler" where
  "noHandler n s = s"

text \<open>Node \<open>A\<close> with key prefix \<open>p:\<close>, as \<open>NewCouchbaseHeartbeater\<close> returns it.\<close>

definition nodeA :: couchbaseHeartBeater where
  "nodeA =
     \<lparr>bucket = Some (Bucket ''default''), couchbaseUrlStr = ''http://localhost:8091'',
      bucketName = ''default'', nodeUuid = ''A'', keyPrefix = ''p:'',
      heartbeatSendCloser = ChanOpen, heartbeatCheckCloser = ChanOpen\<rparr>"

definition emptyWorld :: "memStore world" where
  "emptyWorld = \<lparr>ext = [], trace = []\<rparr>"

definition heartbeatOf :: "string \<Rightarrow> string \<Rightarrow> string \<times> docValue" where
  "heartbeatOf prefix n =
     (prefix @ ''heartbeat:'' @ n, MetaDoc \<lparr>hm_Type = docTypeHeartbeat, hm_NodeUUID = n\<rparr>)"

definition timeoutOf :: "string \<Rightarrow> string \<Rightarrow> string \<times> docValue" where
  "timeoutOf prefix n =
     (prefix @ ''heartbeat_timeout:'' @ n,
      TimeoutDoc \<lparr>ht_Type = docTypeHeartbeatTimeout, ht_NodeUUID = n\<rparr>)"

section \<open>Properties\<close>

subsection \<open>Facts shared by the proofs\<close>

text \<open>The definitions to unfold when the model is run on a concrete store.\<close>

lemmas run_defs =
  sendHeartbeat_def upsertHeartbeatDoc_def upsertHeartbeatTimeoutDoc_def
  checkStaleHeartbeats_def viewQueryHeartbeatDocs_def addHeartbeatCheckView_def
  bucketSet_def bucketGet_def bucketDelete_def bucketViewCustom_def updateView_def
  couchbaseGetBucket_def logPrintf_def StaleHeartBeatDetected_def
  heartbeatDocId_def heartbeatTimeoutDocId_def docTypeHeartbeat_def docTypeHeartbeatTimeout_def
  memCouchbase_def noHandler_def nodeA_def emptyWorld_def heartbeatOf_def timeoutOf_def
  Let_def

lemma bucketSet_result:
  "cb_Set cb k exp v (ext w) = (r, s) \<Longrightarrow>
   bucketSet cb k exp v w = (r, \<lparr>ext = s, trace = trace w @ [EvSet k exp v]\<rparr>)"
  by (simp add: bucketSet_def)

lemma bucketSet_trace:
  "trace (snd (bucketSet cb k exp v w)) = trace w @ [EvSet k exp v]"
  by (simp add: bucketSet_def split: prod.splits)

lemma bucketGet_result:
  "cb_Get cb k (ext w) = (r, s) \<Longrightarrow>
   bucketGet cb k w = (r, \<lparr>ext = s, trace = trace w @ [EvGet k]\<rparr>)"
  by (simp add: bucketGet_def)

lemma bucketDelete_result:
  "cb_Delete cb k (ext w) = (r, s) \<Longrightarrow>
   bucketDelete cb k w = (r, \<lparr>ext = s, trace = trace w @ [EvDelete k]\<rparr>)"
  by (simp add: bucketDelete_def)

lemma checkLoop_append:
  "checkLoop cb h handler (xs @ ys) w =
     (case checkLoop cb h handler xs w of
        (None, w1) \<Rightarrow> checkLoop cb h handler ys w1
      | (Some err, w1) \<Rightarrow> (Some err, w1))"
proof (induction xs arbitrary: w)
  case Nil
  show ?case by simp
next
  case (Cons x xs)
  show ?case
    by (simp add: Cons.IH Let_def split: prod.splits sum.splits option.splits)
qed

text \<open>
  One poll of the list only appends to the trace, and what it appends holds no callback
  for the checker's own node.
\<close>

lemma checkLoop_no_self_callback:
  "\<exists>t. trace (snd (checkLoop cb h handler ds w)) = trace w @ t \<and>
       EvStaleHeartBeatDetected (nodeUuid h) \<notin> set t"
proof (induction ds arbitrary: w)
  case Nil
  show ?case by simp
next
  case (Cons d ds)
  show ?case
  proof (cases "hm_NodeUUID d = nodeUuid h")
    case True
    then show ?thesis using Cons.IH [of w] by simp
  next
    case notself: False
    show ?thesis
    proof (cases "hm_NodeUUID d = []")
      case True
      obtain t where t: "trace (snd (checkLoop cb h handler ds (logPrintf (SkippingInvalidHeartbeatDoc d) w))) =
          trace (logPrintf (SkippingInvalidHeartbeatDoc d) w) @ t"
          "EvStaleHeartBeatDetected (nodeUuid h) \<notin> set t"
        using Cons.IH by blast
      from t notself True show ?thesis
        by (simp add: logPrintf_def)
    next
      case nonempty: False
      obtain r w1 where g: "bucketGet cb (heartbeatTimeoutDocId h (hm_NodeUUID d)) w = (r, w1)"
        by (cases "bucketGet cb (heartbeatTimeoutDocId h (hm_NodeUUID d)) w")
      then have tw1: "trace w1 = trace w @ [EvGet (heartbeatTimeoutDocId h (hm_NodeUUID d))]"
        by (auto simp: bucketGet_def split: prod.splits)
      show ?thesis
      proof (cases r)
        case (Inr doc)
        obtain t where t: "trace (snd (checkLoop cb h handler ds w1)) = trace w1 @ t"
          "EvStaleHeartBeatDetected (nodeUuid h) \<notin> set t"
          using Cons.IH by blast
        from t tw1 g Inr notself nonempty show ?thesis by simp
      next
        case (Inl err)
        show ?thesis
        proof (cases "IsKeyNoEntError err")
          case False
          with tw1 g Inl notself nonempty show ?thesis by simp
        next
          case True
          define w2 where "w2 = StaleHeartBeatDetected handler (hm_NodeUUID d) w1"
          obtain r' w3 where del: "bucketDelete cb (heartbeatDocId h (hm_NodeUUID d)) w2 = (r', w3)"
            by (cases "bucketDelete cb (heartbeatDocId h (hm_NodeUUID d)) w2")
          have tw3: "trace w3 = trace w @ [EvGet (heartbeatTimeoutDocId h (hm_NodeUUID d)),
              EvStaleHeartBeatDetected (hm_NodeUUID d), EvDelete (heartbeatDocId h (hm_NodeUUID d))]"
            using del tw1 by (auto simp: bucketDelete_def w2_def StaleHeartBeatDetected_def split: prod.splits)
          show ?thesis
          proof (cases r')
            case None
            obtain t where t: "trace (snd (checkLoop cb h handler ds w3)) = trace w3 @ t"
              "EvStaleHeartBeatDetected (nodeUuid h) \<notin> set t"
              using Cons.IH by blast
            from t tw3 g Inl True del None notself nonempty show ?thesis
              by (simp add: w2_def [symmetric])
          next
            case (Some err')
            define w4 where "w4 = logPrintf (FailedToDeleteHeartbeatDoc (heartbeatDocId h (hm_NodeUUID d)) err') w3"
            obtain t where t: "trace (snd (checkLoop cb h handler ds w4)) = trace w4 @ t"
              "EvStaleHeartBeatDetected (nodeUuid h) \<notin> set t"
              using Cons.IH by blast
            have tw4: "trace w4 = trace w3 @ [EvLog (FailedToDeleteHeartbeatDoc (heartbeatDocId h (hm_NodeUUID d)) err')]"
              by (simp add: w4_def logPrintf_def)
            from t tw3 tw4 g Inl True del Some notself nonempty show ?thesis
              by (simp add: w2_def [symmetric] w4_def [symmetric])
          qed
        qed
      qed
    qed
  qed
qed


lemma viewQueryHeartbeatDocs_trace:
  "trace (snd (viewQueryHeartbeatDocs cb h w)) =
   trace w @ [EvViewCustom ''cbgt'' ''heartbeats'' [(''stale'', PBool False)]]"
  by (simp add: viewQueryHeartbeatDocs_def bucketViewCustom_def split: prod.splits sum.splits)

lemma sdiv_1000_exact:
  "(k::int) mod 1000 = 0 \<Longrightarrow> k sdiv 1000 = k div 1000"
  by (auto simp: signed_divide_int_def sgn_if split: if_splits)

lemma sint_expireTimeSeconds:
  "sint (expireTimeSeconds i) = 2 * (sint i sdiv 1000)"
proof -
  have lo: "- (2 ^ 63) \<le> sint i" and hi: "sint i < 2 ^ 63"
    using sint_ge [of i] sint_lt [of i] by simp_all
  have b: "\<bar>sint i sdiv 1000\<bar> \<le> \<bar>sint i\<bar> div 1000"
    by (simp add: signed_divide_int_def sgn_if abs_mult)
  have "\<bar>sint i\<bar> \<le> 2 ^ 63" using lo hi by linarith
  then have "\<bar>sint i\<bar> div 1000 \<le> 2 ^ 63 div 1000"
    by (rule zdiv_mono1) simp
  with b have r: "- (2 ^ 63) \<le> 2 * (sint i sdiv 1000)" "2 * (sint i sdiv 1000) < 2 ^ 63"
    by simp_all
  have e: "expireTimeSeconds i = word_of_int (2 * (sint i sdiv 1000))"
    by (simp add: expireTimeSeconds_def go_div_def)
  have "sint (expireTimeSeconds i) = sint (word_of_int (2 * (sint i sdiv 1000)) :: go_int)"
    by (simp only: e)
  also have "\<dots> = signed_take_bit (LENGTH(64) - 1) (2 * (sint i sdiv 1000))"
    by (rule sint_sbintrunc')
  also have "\<dots> = 2 * (sint i sdiv 1000)"
    using r by (simp add: signed_take_bit_int_eq_self)
  finally show ?thesis .
qed

text \<open>Every interval between 1 and 999 ms gets an expiry of 0 seconds.\<close>

lemma subsecond_expireTimeSeconds_zero:
  assumes "0 < sint intervalMs" and "sint intervalMs < 1000"
  shows "expireTimeSeconds intervalMs = 0"
proof -
  have "\<bar>sint intervalMs\<bar> div 1000 = 0"
    using assms by simp
  then have "sint intervalMs sdiv 1000 = 0"
    by (simp add: signed_divide_int_def)
  then show ?thesis
    by (simp add: expireTimeSeconds_def go_div_def)
qed

subsection \<open>The send tick\<close>

text \<open>
  C1, as the code has it: a send tick writes the liveness record first and stops at the
  first error. When the upsert of the liveness record returns an error, the tick returns
  that error having made that one \<open>Set\<close> call and no other (the expiry record is not
  written), and the sender goroutine only logs the error and goes on to its next
  \<open>select\<close>. When the liveness upsert succeeds, the tick goes on to the upsert of the
  expiry record and returns its result.
\<close>

theorem sendHeartbeat_stops_at_liveness_error:
  "(upsertHeartbeatDoc cb h w = (Some err, w1) \<longrightarrow>
      sendHeartbeat cb h intervalMs w = (Some err, w1) \<and>
      trace w1 = trace w @
        [EvSet (heartbeatDocId h (nodeUuid h)) 0
           (MetaDoc \<lparr>hm_Type = docTypeHeartbeat, hm_NodeUUID = nodeUuid h\<rparr>)] \<and>
      senderLoop cb h intervalMs (TickerFired # cases) w =
        senderLoop cb h intervalMs cases (logPrintf (ErrorSendingHeartbeat err) w1)) \<and>
   (upsertHeartbeatDoc cb h w = (None, w2) \<longrightarrow>
      sendHeartbeat cb h intervalMs w = upsertHeartbeatTimeoutDoc cb h intervalMs w2)"
proof (intro conjI impI)
  assume a: "upsertHeartbeatDoc cb h w = (Some err, w1)"
  show s: "sendHeartbeat cb h intervalMs w = (Some err, w1)"
    by (simp add: sendHeartbeat_def a)
  have "trace (snd (upsertHeartbeatDoc cb h w)) = trace w @
      [EvSet (heartbeatDocId h (nodeUuid h)) 0
         (MetaDoc \<lparr>hm_Type = docTypeHeartbeat, hm_NodeUUID = nodeUuid h\<rparr>)]"
    by (simp add: upsertHeartbeatDoc_def Let_def bucketSet_trace)
  then show "trace w1 = trace w @
      [EvSet (heartbeatDocId h (nodeUuid h)) 0
         (MetaDoc \<lparr>hm_Type = docTypeHeartbeat, hm_NodeUUID = nodeUuid h\<rparr>)]"
    by (simp add: a)
  show "senderLoop cb h intervalMs (TickerFired # cases) w =
      senderLoop cb h intervalMs cases (logPrintf (ErrorSendingHeartbeat err) w1)"
    by (simp add: s)
next
  assume a: "upsertHeartbeatDoc cb h w = (None, w2)"
  show "sendHeartbeat cb h intervalMs w = upsertHeartbeatTimeoutDoc cb h intervalMs w2"
    by (simp add: sendHeartbeat_def a split: prod.splits option.splits)
qed

text \<open>
  Witness for C1: node \<open>A\<close> on a store whose liveness key is broken (first part), and on
  a working store (second part).
\<close>

theorem sendHeartbeat_stops_at_liveness_error_witness:
  "upsertHeartbeatDoc (memCouchbase [''p:heartbeat:A'']) nodeA emptyWorld =
     (Some (StoreError 1),
      \<lparr>ext = [], trace = [EvSet ''p:heartbeat:A'' 0 (MetaDoc \<lparr>hm_Type = ''heartbeat'', hm_NodeUUID = ''A''\<rparr>)]\<rparr>) \<and>
   sendHeartbeat (memCouchbase [''p:heartbeat:A'']) nodeA 1000 emptyWorld =
     (Some (StoreError 1),
      \<lparr>ext = [], trace = [EvSet ''p:heartbeat:A'' 0 (MetaDoc \<lparr>hm_Type = ''heartbeat'', hm_NodeUUID = ''A''\<rparr>)]\<rparr>) \<and>
   senderLoop (memCouchbase [''p:heartbeat:A'']) nodeA 1000 [TickerFired] emptyWorld =
     (False,
      \<lparr>ext = [], trace = [EvSet ''p:heartbeat:A'' 0 (MetaDoc \<lparr>hm_Type = ''heartbeat'', hm_NodeUUID = ''A''\<rparr>),
                          EvLog (ErrorSendingHeartbeat (StoreError 1))]\<rparr>) \<and>
   upsertHeartbeatDoc (memCouchbase []) nodeA emptyWorld =
     (None,
      \<lparr>ext = [heartbeatOf ''p:'' ''A''],
       trace = [EvSet ''p:heartbeat:A'' 0 (MetaDoc \<lparr>hm_Type = ''heartbeat'', hm_NodeUUID = ''A''\<rparr>)]\<rparr>) \<and>
   trace (snd (sendHeartbeat (memCouchbase []) nodeA 1000 emptyWorld)) =
     [EvSet ''p:heartbeat:A'' 0 (MetaDoc \<lparr>hm_Type = ''heartbeat'', hm_NodeUUID = ''A''\<rparr>),
      EvSet ''p:heartbeat_timeout:A'' 2 (TimeoutDoc \<lparr>ht_Type = ''heartbeat_timeout'', ht_NodeUUID = ''A''\<rparr>)]"
proof -
  have u1: "upsertHeartbeatDoc (memCouchbase [''p:heartbeat:A'']) nodeA emptyWorld =
     (Some (StoreError 1),
      \<lparr>ext = [], trace = [EvSet ''p:heartbeat:A'' 0 (MetaDoc \<lparr>hm_Type = ''heartbeat'', hm_NodeUUID = ''A''\<rparr>)]\<rparr>)"
    by (simp add: run_defs)
  have u2: "upsertHeartbeatDoc (memCouchbase []) nodeA emptyWorld =
     (None,
      \<lparr>ext = [heartbeatOf ''p:'' ''A''],
       trace = [EvSet ''p:heartbeat:A'' 0 (MetaDoc \<lparr>hm_Type = ''heartbeat'', hm_NodeUUID = ''A''\<rparr>)]\<rparr>)"
    by (simp add: run_defs)
  have x: "expireTimeSeconds 1000 = 2"
    by (simp add: expireTimeSeconds_def go_div_def signed_divide_int_def)
  note a = sendHeartbeat_stops_at_liveness_error
    [where intervalMs = 1000 and cases = "[]", THEN conjunct1, THEN mp, OF u1]
  have p1: "sendHeartbeat (memCouchbase [''p:heartbeat:A'']) nodeA 1000 emptyWorld =
     (Some (StoreError 1),
      \<lparr>ext = [], trace = [EvSet ''p:heartbeat:A'' 0 (MetaDoc \<lparr>hm_Type = ''heartbeat'', hm_NodeUUID = ''A''\<rparr>)]\<rparr>)"
    using a by (rule conjunct1)
  have "senderLoop (memCouchbase [''p:heartbeat:A'']) nodeA 1000 [TickerFired] emptyWorld =
      senderLoop (memCouchbase [''p:heartbeat:A'']) nodeA 1000 []
        (logPrintf (ErrorSendingHeartbeat (StoreError 1))
          \<lparr>ext = [], trace = [EvSet ''p:heartbeat:A'' 0 (MetaDoc \<lparr>hm_Type = ''heartbeat'', hm_NodeUUID = ''A''\<rparr>)]\<rparr>)"
    using a by (rule conjunct2 [THEN conjunct2])
  then have p2: "senderLoop (memCouchbase [''p:heartbeat:A'']) nodeA 1000 [TickerFired] emptyWorld =
     (False,
      \<lparr>ext = [], trace = [EvSet ''p:heartbeat:A'' 0 (MetaDoc \<lparr>hm_Type = ''heartbeat'', hm_NodeUUID = ''A''\<rparr>),
                          EvLog (ErrorSendingHeartbeat (StoreError 1))]\<rparr>)"
    by (simp add: logPrintf_def)
  note b = sendHeartbeat_stops_at_liveness_error
    [where intervalMs = 1000, THEN conjunct2, THEN mp, OF u2]
  have p3: "trace (snd (sendHeartbeat (memCouchbase []) nodeA 1000 emptyWorld)) =
     [EvSet ''p:heartbeat:A'' 0 (MetaDoc \<lparr>hm_Type = ''heartbeat'', hm_NodeUUID = ''A''\<rparr>),
      EvSet ''p:heartbeat_timeout:A'' 2 (TimeoutDoc \<lparr>ht_Type = ''heartbeat_timeout'', ht_NodeUUID = ''A''\<rparr>)]"
    by (subst b) (simp add: x upsertHeartbeatTimeoutDoc_def bucketSet_trace nodeA_def
        heartbeatTimeoutDocId_def docTypeHeartbeatTimeout_def Let_def)
  from u1 u2 p1 p2 p3 show ?thesis by blast
qed

text \<open>
  C1 as stated fails: on a store whose liveness key is broken, the whole send tick of node
  \<open>A\<close> is the one failed \<open>Set\<close> of the liveness record; no \<open>Set\<close> of the expiry record
  \<open>p:heartbeat_timeout:A\<close> is attempted.
\<close>

theorem sendHeartbeat_expiry_not_attempted:
  "fst (upsertHeartbeatDoc (memCouchbase [''p:heartbeat:A'']) nodeA emptyWorld) = Some (StoreError 1) \<and>
   trace (snd (sendHeartbeat (memCouchbase [''p:heartbeat:A'']) nodeA 1000 emptyWorld)) =
     [EvSet ''p:heartbeat:A'' 0 (MetaDoc \<lparr>hm_Type = ''heartbeat'', hm_NodeUUID = ''A''\<rparr>)]"
  by (simp add: run_defs)

text \<open>
  C2, as the code has it: for every send interval that is a whole number of seconds
  (\<open>intervalMs\<close> a multiple of 1000), the upsert of the expiry record makes one \<open>Set\<close>
  call, on the node's own timeout key, whose expiry argument is exactly twice the interval
  in seconds.
\<close>

theorem expiry_ttl_twice_whole_second_interval:
  assumes "sint intervalMs mod 1000 = 0"
  shows "trace (snd (upsertHeartbeatTimeoutDoc cb h intervalMs w)) = trace w @
           [EvSet (heartbeatTimeoutDocId h (nodeUuid h)) (expireTimeSeconds intervalMs)
              (TimeoutDoc \<lparr>ht_Type = docTypeHeartbeatTimeout, ht_NodeUUID = nodeUuid h\<rparr>)] \<and>
         1000 * sint (expireTimeSeconds intervalMs) = 2 * sint intervalMs"
proof
  show "trace (snd (upsertHeartbeatTimeoutDoc cb h intervalMs w)) = trace w @
           [EvSet (heartbeatTimeoutDocId h (nodeUuid h)) (expireTimeSeconds intervalMs)
              (TimeoutDoc \<lparr>ht_Type = docTypeHeartbeatTimeout, ht_NodeUUID = nodeUuid h\<rparr>)]"
    by (simp add: upsertHeartbeatTimeoutDoc_def Let_def bucketSet_trace)
next
  have "sint intervalMs sdiv 1000 = sint intervalMs div 1000"
    by (rule sdiv_1000_exact [OF assms])
  then have e: "sint (expireTimeSeconds intervalMs) = 2 * (sint intervalMs div 1000)"
    by (simp only: sint_expireTimeSeconds)
  have "1000 dvd sint intervalMs"
    using assms by (rule dvd_eq_mod_eq_0 [THEN iffD2])
  then have "1000 * (sint intervalMs div 1000) = sint intervalMs"
    by (rule dvd_mult_div_cancel)
  with e show "1000 * sint (expireTimeSeconds intervalMs) = 2 * sint intervalMs"
    by linarith
qed

text \<open>Witness for C2: an interval of 3000 ms gives an expiry of 6 seconds.\<close>

theorem expiry_ttl_twice_whole_second_interval_witness:
  "sint (3000 :: go_int) mod 1000 = 0 \<and>
   trace (snd (upsertHeartbeatTimeoutDoc (memCouchbase []) nodeA 3000 emptyWorld)) =
     [EvSet ''p:heartbeat_timeout:A'' (expireTimeSeconds 3000)
        (TimeoutDoc \<lparr>ht_Type = ''heartbeat_timeout'', ht_NodeUUID = ''A''\<rparr>)] \<and>
   sint (expireTimeSeconds 3000) = 6"
proof -
  have h: "sint (3000 :: go_int) mod 1000 = 0" by simp
  from expiry_ttl_twice_whole_second_interval [OF h, of "memCouchbase []" nodeA emptyWorld]
  show ?thesis
    by (simp add: heartbeatTimeoutDocId_def docTypeHeartbeatTimeout_def nodeA_def emptyWorld_def)
qed

text \<open>
  C2 as stated fails: with an interval of 1250 ms the expiry handed to the store is 2
  seconds, and twice the interval is 2.5 seconds.
\<close>

theorem expiry_ttl_not_twice_1250:
  "trace (snd (upsertHeartbeatTimeoutDoc (memCouchbase []) nodeA 1250 emptyWorld)) =
     [EvSet ''p:heartbeat_timeout:A'' 2
        (TimeoutDoc \<lparr>ht_Type = ''heartbeat_timeout'', ht_NodeUUID = ''A''\<rparr>)] \<and>
   1000 * sint (2 :: go_int) \<noteq> 2 * sint (1250 :: go_int)"
  by (simp add: run_defs expireTimeSeconds_def go_div_def signed_divide_int_def)

text \<open>
  C3: the code at a sub-second interval. With an interval of 500 ms the sender starts
  (\<open>StartSendingHeartbeats\<close> returns \<open>nil\<close>, nothing is rejected), and its tick writes
  the expiry record with an expiry argument of 0, which the store reads as "never
  expires".
\<close>

theorem subsecond_interval_ttl_zero:
  "StartSendingHeartbeats (memCouchbase []) nodeA 500 emptyWorld =
     Inr (None, Some (Ticker 500000000), emptyWorld) \<and>
   sendHeartbeat (memCouchbase []) nodeA 500 emptyWorld =
     (None,
      \<lparr>ext = [timeoutOf ''p:'' ''A'', heartbeatOf ''p:'' ''A''],
       trace = [EvSet ''p:heartbeat:A'' 0 (MetaDoc \<lparr>hm_Type = ''heartbeat'', hm_NodeUUID = ''A''\<rparr>),
                EvSet ''p:heartbeat_timeout:A'' 0
                  (TimeoutDoc \<lparr>ht_Type = ''heartbeat_timeout'', ht_NodeUUID = ''A''\<rparr>)]\<rparr>)"
  by (simp add: StartSendingHeartbeats_def NewTicker_def Millisecond_def run_defs
      expireTimeSeconds_def go_div_def signed_divide_int_def)

subsection \<open>The query of the checker\<close>

text \<open>
  C4, as the code has it: the enumeration of the liveness records makes one view query, on
  view \<open>heartbeats\<close> of design document \<open>cbgt\<close>, whose only parameter is
  \<open>stale = false\<close>: it asks for the rows of a freshly updated index and does not allow
  rows of a stale one.
\<close>

theorem viewQuery_requires_fresh_index:
  "\<exists>params.
     trace (snd (viewQueryHeartbeatDocs cb h w)) =
       trace w @ [EvViewCustom ''cbgt'' ''heartbeats'' params] \<and>
     params = [(''stale'', PBool False)] \<and> \<not> allowsStaleIndex params"
  by (simp add: viewQueryHeartbeatDocs_trace allowsStaleIndex_def)

text \<open>
  C4 as stated fails: the query node \<open>A\<close> makes on the empty store carries
  \<open>stale = false\<close>, which does not allow stale rows.
\<close>

theorem viewQuery_not_stale_ok:
  "trace (snd (viewQueryHeartbeatDocs (memCouchbase []) nodeA emptyWorld)) =
     [EvViewCustom ''cbgt'' ''heartbeats'' [(''stale'', PBool False)]] \<and>
   \<not> allowsStaleIndex [(''stale'', PBool False)]"
  by (simp add: run_defs allowsStaleIndex_def)

subsection \<open>Starting and stopping\<close>

text \<open>
  C9: stopping twice panics. Whenever a first \<open>StopSendingHeartbeats\<close> has returned,
  a second one on the same heartbeater panics with Go's "close of closed channel", and
  the same holds for \<open>StopCheckingHeartbeats\<close>; a panic returns no heartbeater, so the
  closer stays closed.
\<close>

theorem double_stop_panics:
  "(StopSendingHeartbeats h = Inr h' \<longrightarrow>
      heartbeatSendCloser h' = ChanClosed \<and>
      StopSendingHeartbeats h' = Inl (Panic ''close of closed channel'')) \<and>
   (StopCheckingHeartbeats h = Inr h' \<longrightarrow>
      heartbeatCheckCloser h' = ChanClosed \<and>
      StopCheckingHeartbeats h' = Inl (Panic ''close of closed channel''))"
  by (cases "heartbeatSendCloser h"; cases "heartbeatCheckCloser h")
     (auto simp: StopSendingHeartbeats_def StopCheckingHeartbeats_def)

text \<open>
  Witness for C9: the heartbeater of node \<open>A\<close>, as constructed, is stopped once (each
  closer goes from open to closed) and then a second time.
\<close>

theorem double_stop_panics_witness:
  "NewCouchbaseHeartbeater (memCouchbase []) ''http://localhost:8091'' ''default'' ''p:'' ''A'' emptyWorld =
     (Inr nodeA, \<lparr>ext = [], trace = [EvGetBucket ''http://localhost:8091'' ''default'' ''default'']\<rparr>) \<and>
   StopSendingHeartbeats nodeA = Inr (nodeA\<lparr>heartbeatSendCloser := ChanClosed\<rparr>) \<and>
   StopSendingHeartbeats (nodeA\<lparr>heartbeatSendCloser := ChanClosed\<rparr>) =
     Inl (Panic ''close of closed channel'') \<and>
   StopCheckingHeartbeats nodeA = Inr (nodeA\<lparr>heartbeatCheckCloser := ChanClosed\<rparr>) \<and>
   StopCheckingHeartbeats (nodeA\<lparr>heartbeatCheckCloser := ChanClosed\<rparr>) =
     Inl (Panic ''close of closed channel'')"
proof -
  have n: "NewCouchbaseHeartbeater (memCouchbase []) ''http://localhost:8091'' ''default'' ''p:'' ''A'' emptyWorld =
     (Inr nodeA, \<lparr>ext = [], trace = [EvGetBucket ''http://localhost:8091'' ''default'' ''default'']\<rparr>)"
    by (simp add: NewCouchbaseHeartbeater_def getBucket_def run_defs)
  have s: "StopSendingHeartbeats nodeA = Inr (nodeA\<lparr>heartbeatSendCloser := ChanClosed\<rparr>)"
    by (simp add: StopSendingHeartbeats_def nodeA_def)
  have c: "StopCheckingHeartbeats nodeA = Inr (nodeA\<lparr>heartbeatCheckCloser := ChanClosed\<rparr>)"
    by (simp add: StopCheckingHeartbeats_def nodeA_def)
  note s2 = double_stop_panics [THEN conjunct1, THEN mp, OF s, THEN conjunct2]
  note c2 = double_stop_panics [THEN conjunct2, THEN mp, OF c, THEN conjunct2]
  from n s c s2 c2 show ?thesis by blast
qed

text \<open>
  C10, as the code has it: \<open>StartSendingHeartbeats\<close> checks nothing and touches no
  store. When the tick duration \<open>intervalMs * time.Millisecond\<close> (a 64-bit product) is
  positive it returns the \<open>nil\<close> error with the world as it was; otherwise
  \<open>time.NewTicker\<close> panics and the call does not return.
\<close>

theorem StartSendingHeartbeats_nil_or_panic:
  "(0 < sint (intervalMs * Millisecond) \<longrightarrow>
      StartSendingHeartbeats cb h intervalMs w =
        Inr (None, Some (Ticker (intervalMs * Millisecond)), w)) \<and>
   (sint (intervalMs * Millisecond) \<le> 0 \<longrightarrow>
      StartSendingHeartbeats cb h intervalMs w =
        Inl (Panic ''non-positive interval for NewTicker''))"
  by (simp add: StartSendingHeartbeats_def NewTicker_def)

text \<open>Witness for C10: an interval of 1000 ms starts, an interval of -5 ms panics.\<close>

theorem StartSendingHeartbeats_nil_or_panic_witness:
  "0 < sint ((1000 :: go_int) * Millisecond) \<and>
   StartSendingHeartbeats (memCouchbase []) nodeA 1000 emptyWorld =
     Inr (None, Some (Ticker 1000000000), emptyWorld) \<and>
   sint ((- 5 :: go_int) * Millisecond) \<le> 0 \<and>
   StartSendingHeartbeats (memCouchbase []) nodeA (- 5) emptyWorld =
     Inl (Panic ''non-positive interval for NewTicker'')"
proof -
  have p: "0 < sint ((1000 :: go_int) * Millisecond)"
    by (simp add: Millisecond_def)
  have q: "sint ((- 5 :: go_int) * Millisecond) \<le> 0"
    by (simp add: Millisecond_def)
  have m: "(1000 :: go_int) * Millisecond = 1000000000"
    by (simp add: Millisecond_def)
  note a = StartSendingHeartbeats_nil_or_panic [THEN conjunct1, THEN mp, OF p]
  note b = StartSendingHeartbeats_nil_or_panic [THEN conjunct2, THEN mp, OF q]
  show ?thesis using p q a [of "memCouchbase []" nodeA emptyWorld] b [of "memCouchbase []" nodeA emptyWorld]
    by (simp only: m)
qed

text \<open>
  C10 as stated fails: with an interval of 0 the call does not return \<open>nil\<close>, it
  panics in \<open>time.NewTicker\<close>.
\<close>

theorem StartSendingHeartbeats_zero_interval_panics:
  "StartSendingHeartbeats (memCouchbase []) nodeA 0 emptyWorld =
     Inl (Panic ''non-positive interval for NewTicker'')"
  by (simp add: StartSendingHeartbeats_def NewTicker_def)

subsection \<open>The poll cycle of the checker\<close>




text \<open>
  C6: any other error of the lookup ends the cycle. When the query has returned the
  records \<open>before @ d # rest\<close>, the loop has gone through \<open>before\<close> without error,
  and the \<open>Get\<close> of the timeout key of \<open>d\<close> (another node, non-empty identifier)
  returns an error that is not key-not-found, then \<open>checkStaleHeartbeats\<close> returns that
  error with the failed \<open>Get\<close> as its last call: the records of \<open>rest\<close> are not looked
  at, and no callback or deletion follows. The checker goroutine logs the error and goes on
  to its next \<open>select\<close>.
\<close>

theorem other_get_error_aborts_cycle:
  assumes "viewQueryHeartbeatDocs cb h w = (Inr (before @ d # rest), w0)"
    and "checkLoop cb h handler before w0 = (None, w1)"
    and "hm_NodeUUID d \<noteq> nodeUuid h" and "hm_NodeUUID d \<noteq> []"
    and "cb_Get cb (heartbeatTimeoutDocId h (hm_NodeUUID d)) (ext w1) = (Inl err, s2)"
    and "\<not> IsKeyNoEntError err"
  shows "checkStaleHeartbeats cb h staleThresholdMs handler w =
           (Some err,
            \<lparr>ext = s2, trace = trace w1 @ [EvGet (heartbeatTimeoutDocId h (hm_NodeUUID d))]\<rparr>) \<and>
         checkerLoop cb h staleThresholdMs handler (TickerFired # cases) w =
           checkerLoop cb h staleThresholdMs handler cases
             \<lparr>ext = s2,
              trace = trace w1 @
                [EvGet (heartbeatTimeoutDocId h (hm_NodeUUID d)),
                 EvLog (ErrorCheckingStaleHeartbeats err)]\<rparr>"
proof -
  have g: "bucketGet cb (heartbeatTimeoutDocId h (hm_NodeUUID d)) w1 =
      (Inl err, \<lparr>ext = s2, trace = trace w1 @ [EvGet (heartbeatTimeoutDocId h (hm_NodeUUID d))]\<rparr>)"
    using assms(5) by (rule bucketGet_result)
  have step: "checkLoop cb h handler (d # rest) w1 =
      (Some err, \<lparr>ext = s2, trace = trace w1 @ [EvGet (heartbeatTimeoutDocId h (hm_NodeUUID d))]\<rparr>)"
    by (simp add: assms(3,4,6) g)
  have loop: "checkLoop cb h handler (before @ d # rest) w0 =
      (Some err, \<lparr>ext = s2, trace = trace w1 @ [EvGet (heartbeatTimeoutDocId h (hm_NodeUUID d))]\<rparr>)"
    by (simp only: checkLoop_append assms(2) step prod.case option.case)
  have c: "checkStaleHeartbeats cb h staleThresholdMs handler w =
      (Some err, \<lparr>ext = s2, trace = trace w1 @ [EvGet (heartbeatTimeoutDocId h (hm_NodeUUID d))]\<rparr>)"
    by (simp only: checkStaleHeartbeats_def assms(1) loop prod.case sum.case)
  have "checkerLoop cb h staleThresholdMs handler (TickerFired # cases) w =
      checkerLoop cb h staleThresholdMs handler cases
        (logPrintf (ErrorCheckingStaleHeartbeats err)
           \<lparr>ext = s2, trace = trace w1 @ [EvGet (heartbeatTimeoutDocId h (hm_NodeUUID d))]\<rparr>)"
    by (simp add: c)
  with c show ?thesis by (simp add: logPrintf_def)
qed

text \<open>
  Witness for C6: node \<open>A\<close> polls a store holding the heartbeats of \<open>C\<close> (alive: its
  timeout document is there), \<open>B\<close> (the \<open>Get\<close> of its timeout key fails with a store
  error) and \<open>D\<close> (no timeout document: stale). The cycle ends at \<open>B\<close>; \<open>D\<close> is
  neither looked up nor reported.
\<close>

theorem other_get_error_aborts_cycle_witness:
  "checkStaleHeartbeats (memCouchbase [''p:heartbeat_timeout:B'']) nodeA 2500 noHandler
     \<lparr>ext = [heartbeatOf ''p:'' ''C'', timeoutOf ''p:'' ''C'', heartbeatOf ''p:'' ''B'',
             heartbeatOf ''p:'' ''D''], trace = []\<rparr> =
   (Some (StoreError 1),
    \<lparr>ext = [heartbeatOf ''p:'' ''C'', timeoutOf ''p:'' ''C'', heartbeatOf ''p:'' ''B'',
            heartbeatOf ''p:'' ''D''],
     trace = [EvViewCustom ''cbgt'' ''heartbeats'' [(''stale'', PBool False)],
              EvGet ''p:heartbeat_timeout:C'', EvGet ''p:heartbeat_timeout:B'']\<rparr>) \<and>
   checkerLoop (memCouchbase [''p:heartbeat_timeout:B'']) nodeA 2500 noHandler [TickerFired]
     \<lparr>ext = [heartbeatOf ''p:'' ''C'', timeoutOf ''p:'' ''C'', heartbeatOf ''p:'' ''B'',
             heartbeatOf ''p:'' ''D''], trace = []\<rparr> =
   (False,
    \<lparr>ext = [heartbeatOf ''p:'' ''C'', timeoutOf ''p:'' ''C'', heartbeatOf ''p:'' ''B'',
            heartbeatOf ''p:'' ''D''],
     trace = [EvViewCustom ''cbgt'' ''heartbeats'' [(''stale'', PBool False)],
              EvGet ''p:heartbeat_timeout:C'', EvGet ''p:heartbeat_timeout:B'',
              EvLog (ErrorCheckingStaleHeartbeats (StoreError 1))]\<rparr>)"
proof -
  let ?cb = "memCouchbase [''p:heartbeat_timeout:B'']"
  let ?s = "[heartbeatOf ''p:'' ''C'', timeoutOf ''p:'' ''C'', heartbeatOf ''p:'' ''B'',
             heartbeatOf ''p:'' ''D'']"
  let ?w = "\<lparr>ext = ?s, trace = []\<rparr> :: memStore world"
  let ?wq = "\<lparr>ext = ?s, trace = [EvViewCustom ''cbgt'' ''heartbeats'' [(''stale'', PBool False)]]\<rparr> :: memStore world"
  let ?wc = "\<lparr>ext = ?s, trace = [EvViewCustom ''cbgt'' ''heartbeats'' [(''stale'', PBool False)],
              EvGet ''p:heartbeat_timeout:C'']\<rparr> :: memStore world"
  let ?c = "\<lparr>hm_Type = ''heartbeat'', hm_NodeUUID = ''C''\<rparr>"
  let ?b = "\<lparr>hm_Type = ''heartbeat'', hm_NodeUUID = ''B''\<rparr>"
  let ?d = "\<lparr>hm_Type = ''heartbeat'', hm_NodeUUID = ''D''\<rparr>"
  have a1: "viewQueryHeartbeatDocs ?cb nodeA ?w = (Inr ([?c] @ ?b # [?d]), ?wq)"
    by (simp add: run_defs)
  have a2: "checkLoop ?cb nodeA noHandler [?c] ?wq = (None, ?wc)"
    by (simp add: run_defs)
  have a3: "hm_NodeUUID ?b \<noteq> nodeUuid nodeA" by (simp add: nodeA_def)
  have a4: "hm_NodeUUID ?b \<noteq> []" by simp
  have a5: "cb_Get ?cb (heartbeatTimeoutDocId nodeA (hm_NodeUUID ?b)) (ext ?wc) = (Inl (StoreError 1), ?s)"
    by (simp add: run_defs)
  have a6: "\<not> IsKeyNoEntError (StoreError 1)" by simp
  note t = other_get_error_aborts_cycle
    [where cb = ?cb and h = nodeA and handler = noHandler and w = ?w and before = "[?c]"
       and d = ?b and rest = "[?d]" and ?w0.0 = ?wq and ?w1.0 = ?wc and err = "StoreError 1"
       and ?s2.0 = ?s and staleThresholdMs = 2500 and cases = "[]",
     OF a1 a2 a3 a4 a5 a6]
  have k: "heartbeatTimeoutDocId nodeA ''B'' = ''p:heartbeat_timeout:B''"
    by (simp add: heartbeatTimeoutDocId_def nodeA_def)
  have p1: "checkStaleHeartbeats ?cb nodeA 2500 noHandler ?w =
     (Some (StoreError 1),
      \<lparr>ext = ?s,
       trace = [EvViewCustom ''cbgt'' ''heartbeats'' [(''stale'', PBool False)],
                EvGet ''p:heartbeat_timeout:C'', EvGet ''p:heartbeat_timeout:B'']\<rparr>)"
    using t [THEN conjunct1] by (simp add: k)
  have p2: "checkerLoop ?cb nodeA 2500 noHandler [TickerFired] ?w =
     (False,
      \<lparr>ext = ?s,
       trace = [EvViewCustom ''cbgt'' ''heartbeats'' [(''stale'', PBool False)],
                EvGet ''p:heartbeat_timeout:C'', EvGet ''p:heartbeat_timeout:B'',
                EvLog (ErrorCheckingStaleHeartbeats (StoreError 1))]\<rparr>)"
    using t [THEN conjunct2] by (simp add: k del: checkerLoop.simps(3))
  from p1 p2 show ?thesis by (rule conjI)
qed

text \<open>
  C7: the checker never reports itself. Whatever the store answers and whatever rows the
  query returns, a poll cycle only appends to the trace of calls, and what it appends holds
  no \<open>StaleHeartBeatDetected\<close> callback with the checker's own node identifier. A
  record whose owner is this node is skipped: the loop goes on with the remaining records
  in the same world, having made no \<open>Get\<close>, no callback and no \<open>Delete\<close>.
\<close>

theorem checker_never_reports_itself:
  "take (length (trace w)) (trace (snd (checkStaleHeartbeats cb h staleThresholdMs handler w))) = trace w \<and>
   EvStaleHeartBeatDetected (nodeUuid h) \<notin>
     set (drop (length (trace w)) (trace (snd (checkStaleHeartbeats cb h staleThresholdMs handler w)))) \<and>
   (hm_NodeUUID d = nodeUuid h \<longrightarrow>
      checkLoop cb h handler (d # rest) w = checkLoop cb h handler rest w)"
proof -
  obtain r w0 where q: "viewQueryHeartbeatDocs cb h w = (r, w0)"
    by (cases "viewQueryHeartbeatDocs cb h w")
  have tw0: "trace w0 = trace w @ [EvViewCustom ''cbgt'' ''heartbeats'' [(''stale'', PBool False)]]"
    using viewQueryHeartbeatDocs_trace [of cb h w] by (simp add: q)
  have "\<exists>t. trace (snd (checkStaleHeartbeats cb h staleThresholdMs handler w)) = trace w @ t \<and>
      EvStaleHeartBeatDetected (nodeUuid h) \<notin> set t"
  proof (cases r)
    case (Inl err)
    then show ?thesis by (simp add: checkStaleHeartbeats_def q tw0)
  next
    case (Inr docs)
    obtain t where t: "trace (snd (checkLoop cb h handler docs w0)) = trace w0 @ t"
      "EvStaleHeartBeatDetected (nodeUuid h) \<notin> set t"
      using checkLoop_no_self_callback by blast
    have "trace (snd (checkStaleHeartbeats cb h staleThresholdMs handler w)) =
        trace w @ (EvViewCustom ''cbgt'' ''heartbeats'' [(''stale'', PBool False)] # t)"
      by (simp add: checkStaleHeartbeats_def q Inr t(1) tw0)
    moreover have "EvStaleHeartBeatDetected (nodeUuid h) \<notin>
        set (EvViewCustom ''cbgt'' ''heartbeats'' [(''stale'', PBool False)] # t)"
      using t(2) by simp
    ultimately show ?thesis by blast
  qed
  then obtain t where t: "trace (snd (checkStaleHeartbeats cb h staleThresholdMs handler w)) = trace w @ t"
    "EvStaleHeartBeatDetected (nodeUuid h) \<notin> set t"
    by blast
  show ?thesis
    by (simp add: t)
qed

text \<open>
  Witness for C7: node \<open>A\<close> polls a store that holds its own heartbeat and no timeout
  document of its own (a peer in that state would be reported). The cycle is the view
  query and nothing else.
\<close>

theorem checker_never_reports_itself_witness:
  "hm_NodeUUID \<lparr>hm_Type = ''heartbeat'', hm_NodeUUID = ''A''\<rparr> = nodeUuid nodeA \<and>
   checkLoop (memCouchbase []) nodeA noHandler [\<lparr>hm_Type = ''heartbeat'', hm_NodeUUID = ''A''\<rparr>]
     \<lparr>ext = [heartbeatOf ''p:'' ''A''], trace = []\<rparr> =
   (None, \<lparr>ext = [heartbeatOf ''p:'' ''A''], trace = []\<rparr>) \<and>
   EvStaleHeartBeatDetected ''A'' \<notin>
     set (trace (snd (checkStaleHeartbeats (memCouchbase []) nodeA 2500 noHandler
                        \<lparr>ext = [heartbeatOf ''p:'' ''A''], trace = []\<rparr>)))"
proof -
  let ?a = "\<lparr>hm_Type = ''heartbeat'', hm_NodeUUID = ''A''\<rparr>"
  let ?w = "\<lparr>ext = [heartbeatOf ''p:'' ''A''], trace = []\<rparr> :: memStore world"
  have a: "hm_NodeUUID ?a = nodeUuid nodeA" by (simp add: nodeA_def)
  note t = checker_never_reports_itself
    [where cb = "memCouchbase []" and h = nodeA and handler = noHandler and w = ?w
       and staleThresholdMs = 2500 and d = ?a and rest = "[]"]
  have p1: "checkLoop (memCouchbase []) nodeA noHandler [?a] ?w = (None, ?w)"
    using t [THEN conjunct2, THEN conjunct2, THEN mp, OF a] by simp
  have p2: "EvStaleHeartBeatDetected ''A'' \<notin>
     set (trace (snd (checkStaleHeartbeats (memCouchbase []) nodeA 2500 noHandler ?w)))"
    using t [THEN conjunct2, THEN conjunct1] by (simp add: nodeA_def)
  from a p1 p2 show ?thesis by blast
qed

text \<open>
  C8, as the code has it: a record without an owner is never reported, deleted or fatal.
  When the loop reaches a record whose node identifier is empty, it goes on with the
  remaining records having made no \<open>Get\<close>, no callback and no \<open>Delete\<close> and
  returned no error. A checker whose own identifier is not empty logs the "Skipping
  invalid heartbeatDoc" diagnostic for the record, and that is all it does; a checker
  whose own identifier is empty takes the record for its own and skips it without the
  diagnostic.
\<close>

theorem empty_owner_record_skipped:
  "hm_NodeUUID d = [] \<Longrightarrow>
   checkLoop cb h handler (d # rest) w =
   checkLoop cb h handler rest
     (if nodeUuid h = [] then w else logPrintf (SkippingInvalidHeartbeatDoc d) w)"
  by auto

text \<open>
  Witness for C8: node \<open>A\<close> meets a record with an empty owner, then the record of the
  stale peer \<open>B\<close>: the first is logged and skipped, the cycle goes on to report \<open>B\<close>.
\<close>

theorem empty_owner_record_skipped_witness:
  "hm_NodeUUID \<lparr>hm_Type = ''heartbeat'', hm_NodeUUID = ''''\<rparr> = [] \<and>
   checkLoop (memCouchbase []) nodeA noHandler
     [\<lparr>hm_Type = ''heartbeat'', hm_NodeUUID = ''''\<rparr>, \<lparr>hm_Type = ''heartbeat'', hm_NodeUUID = ''B''\<rparr>]
     \<lparr>ext = [heartbeatOf ''p:'' '''', heartbeatOf ''p:'' ''B''], trace = []\<rparr> =
   (None,
    \<lparr>ext = [heartbeatOf ''p:'' ''''],
     trace = [EvLog (SkippingInvalidHeartbeatDoc \<lparr>hm_Type = ''heartbeat'', hm_NodeUUID = ''''\<rparr>),
              EvGet ''p:heartbeat_timeout:B'', EvStaleHeartBeatDetected ''B'',
              EvDelete ''p:heartbeat:B'']\<rparr>)"
proof -
  let ?e = "\<lparr>hm_Type = ''heartbeat'', hm_NodeUUID = ''''\<rparr>"
  let ?b = "\<lparr>hm_Type = ''heartbeat'', hm_NodeUUID = ''B''\<rparr>"
  let ?w = "\<lparr>ext = [heartbeatOf ''p:'' '''', heartbeatOf ''p:'' ''B''], trace = []\<rparr> :: memStore world"
  have a: "hm_NodeUUID ?e = []" by simp
  have n: "nodeUuid nodeA \<noteq> []" by (simp add: nodeA_def)
  have r: "checkLoop (memCouchbase []) nodeA noHandler [?b] (logPrintf (SkippingInvalidHeartbeatDoc ?e) ?w) =
     (None,
      \<lparr>ext = [heartbeatOf ''p:'' ''''],
       trace = [EvLog (SkippingInvalidHeartbeatDoc ?e),
                EvGet ''p:heartbeat_timeout:B'', EvStaleHeartBeatDetected ''B'',
                EvDelete ''p:heartbeat:B'']\<rparr>)"
    by (simp add: run_defs)
  from empty_owner_record_skipped
    [where cb = "memCouchbase []" and h = nodeA and handler = noHandler and d = ?e
       and rest = "[?b]" and w = ?w, OF a]
  have "checkLoop (memCouchbase []) nodeA noHandler [?e, ?b] ?w =
      checkLoop (memCouchbase []) nodeA noHandler [?b] (logPrintf (SkippingInvalidHeartbeatDoc ?e) ?w)"
    by (simp only: n if_False)
  with r a show ?thesis by (simp only: simp_thms)
qed

text \<open>
  C8 as stated fails: a heartbeater constructed with the empty string as its node
  identifier takes a record with an empty owner for its own. It skips the record with no
  diagnostic: the trace of the poll stays empty.
\<close>

theorem empty_owner_record_skipped_silently:
  "NewCouchbaseHeartbeater (memCouchbase []) ''http://localhost:8091'' ''default'' ''p:'' '''' emptyWorld =
     (Inr (nodeA\<lparr>nodeUuid := ''''\<rparr>),
      \<lparr>ext = [], trace = [EvGetBucket ''http://localhost:8091'' ''default'' ''default'']\<rparr>) \<and>
   checkLoop (memCouchbase []) (nodeA\<lparr>nodeUuid := ''''\<rparr>) noHandler
     [\<lparr>hm_Type = ''heartbeat'', hm_NodeUUID = ''''\<rparr>]
     \<lparr>ext = [heartbeatOf ''p:'' ''''], trace = []\<rparr> =
   (None, \<lparr>ext = [heartbeatOf ''p:'' ''''], trace = []\<rparr>)"
  by (simp add: NewCouchbaseHeartbeater_def getBucket_def run_defs)

end
